theory Spec2Isabelle
  imports Main
begin

section \<open>Python values, exceptions and the built-in operations the program uses\<close>

text \<open>
  An exception of class \<open>Exception\<close> carries its class name and the text that \<open>str(e)\<close>
  gives. A raise is a value \<open>Inl e\<close> of the sum type \<open>exn + 'a\<close>; a normal return is \<open>Inr v\<close>.
\<close>

datatype exn = Exn (exn_class: string) (exn_text: string)

text \<open>
  The dynamically typed values that flow through \<open>main.py\<close>: what \<open>json.loads\<close> produces
  (numbers are kept as integers), the \<open>bytes\<close> that \<open>imaplib\<close> hands out, and the lists and
  dictionaries built from them. A dictionary is an association list in insertion order with
  distinct keys; strings and bytes are both lists of \<open>char\<close>.
\<close>

datatype pyval =
    PNone
  | PBool bool
  | PInt int
  | PStr string
  | PBytes string
  | PList "pyval list"
  | PDict "(string \<times> pyval) list"

definition bind_r :: "exn + 'a \<Rightarrow> ('a \<Rightarrow> exn + 'b) \<Rightarrow> exn + 'b" where
  "bind_r m f = (case m of Inl e \<Rightarrow> Inl e | Inr v \<Rightarrow> f v)"

definition then_r :: "exn option \<Rightarrow> (exn + 'b) \<Rightarrow> exn + 'b" where
  "then_r m k = (case m of Some e \<Rightarrow> Inl e | None \<Rightarrow> k)"

definition type_name :: "pyval \<Rightarrow> string" where
  "type_name v = (case v of
       PNone \<Rightarrow> ''NoneType'' | PBool _ \<Rightarrow> ''bool'' | PInt _ \<Rightarrow> ''int'' | PStr _ \<Rightarrow> ''str''
     | PBytes _ \<Rightarrow> ''bytes'' | PList _ \<Rightarrow> ''list'' | PDict _ \<Rightarrow> ''dict'')"

text \<open>Truth value of an object, as \<open>if x:\<close> tests it.\<close>

definition truthy :: "pyval \<Rightarrow> bool" where
  "truthy v = (case v of
       PNone \<Rightarrow> False | PBool b \<Rightarrow> b | PInt i \<Rightarrow> i \<noteq> 0 | PStr s \<Rightarrow> s \<noteq> []
     | PBytes b \<Rightarrow> b \<noteq> [] | PList xs \<Rightarrow> xs \<noteq> [] | PDict kvs \<Rightarrow> kvs \<noteq> [])"

definition quoted :: "string \<Rightarrow> string" where
  "quoted s = [CHR 0x27] @ s @ [CHR 0x27]"

text \<open>\<open>d.get(key, default)\<close>: only a dictionary has the method.\<close>

definition py_get :: "pyval \<Rightarrow> string \<Rightarrow> pyval \<Rightarrow> exn + pyval" where
  "py_get d key dflt = (case d of
       PDict kvs \<Rightarrow> (case map_of kvs key of None \<Rightarrow> Inr dflt | Some v \<Rightarrow> Inr v)
     | _ \<Rightarrow> Inl (Exn ''AttributeError''
              (quoted (type_name d) @ '' object has no attribute '' @ quoted ''get'')))"

text \<open>Subscription \<open>x[k]\<close> with a string key, and \<open>x[0]\<close>.\<close>

definition getitem_str :: "pyval \<Rightarrow> string \<Rightarrow> exn + pyval" where
  "getitem_str x key = (case x of
       PDict kvs \<Rightarrow> (case map_of kvs key of
                      None \<Rightarrow> Inl (Exn ''KeyError'' (quoted key))
                    | Some v \<Rightarrow> Inr v)
     | PList _ \<Rightarrow> Inl (Exn ''TypeError'' ''list indices must be integers or slices, not str'')
     | PStr _ \<Rightarrow> Inl (Exn ''TypeError'' ''string indices must be integers'')
     | PBytes _ \<Rightarrow> Inl (Exn ''TypeError'' ''byte indices must be integers or slices, not str'')
     | _ \<Rightarrow> Inl (Exn ''TypeError'' (quoted (type_name x) @ '' object is not subscriptable'')))"

definition getitem_0 :: "pyval \<Rightarrow> exn + pyval" where
  "getitem_0 x = (case x of
       PList xs \<Rightarrow> (case xs of [] \<Rightarrow> Inl (Exn ''IndexError'' ''list index out of range'')
                              | y # _ \<Rightarrow> Inr y)
     | PStr s \<Rightarrow> (case s of [] \<Rightarrow> Inl (Exn ''IndexError'' ''string index out of range'')
                            | c # _ \<Rightarrow> Inr (PStr [c]))
     | PBytes s \<Rightarrow> (case s of [] \<Rightarrow> Inl (Exn ''IndexError'' ''index out of range'')
                              | c # _ \<Rightarrow> Inr (PInt (of_char c)))
     | PDict kvs \<Rightarrow> Inl (Exn ''KeyError'' ''0'')
     | _ \<Rightarrow> Inl (Exn ''TypeError'' (quoted (type_name x) @ '' object is not subscriptable'')))"

text \<open>The items a \<open>for\<close> loop or a comprehension draws from an object.\<close>

definition py_iter :: "pyval \<Rightarrow> exn + pyval list" where
  "py_iter x = (case x of
       PList xs \<Rightarrow> Inr xs
     | PDict kvs \<Rightarrow> Inr (map (\<lambda>kv. PStr (fst kv)) kvs)
     | PStr s \<Rightarrow> Inr (map (\<lambda>c. PStr [c]) s)
     | PBytes s \<Rightarrow> Inr (map (\<lambda>c. PInt (of_char c)) s)
     | _ \<Rightarrow> Inl (Exn ''TypeError'' (quoted (type_name x) @ '' object is not iterable'')))"

text \<open>Decimal digits of a natural number, for the index in the message of \<open>str.join\<close>.\<close>

fun nat_digits :: "nat \<Rightarrow> string" where
  "nat_digits n =
     (if n < 10 then [''0123456789'' ! n]
      else nat_digits (n div 10) @ [''0123456789'' ! (n mod 10)])"

text \<open>
  \<open>sep.join(items)\<close>: every item must be a \<open>str\<close>; the first that is not raises
  \<open>TypeError\<close>, naming its position.
\<close>

fun join_from :: "nat \<Rightarrow> pyval list \<Rightarrow> exn + string list" where
  "join_from i [] = Inr []"
| "join_from i (x # xs) = (case x of
       PStr s \<Rightarrow> (case join_from (Suc i) xs of Inl e \<Rightarrow> Inl e | Inr ss \<Rightarrow> Inr (s # ss))
     | _ \<Rightarrow> Inl (Exn ''TypeError'' (''sequence item '' @ nat_digits i @
                '': expected str instance, '' @ type_name x @ '' found'')))"

fun intercalate :: "string \<Rightarrow> string list \<Rightarrow> string" where
  "intercalate sep [] = []"
| "intercalate sep [s] = s"
| "intercalate sep (s # t # ss) = s @ sep @ intercalate sep (t # ss)"

definition str_join :: "string \<Rightarrow> pyval list \<Rightarrow> exn + string" where
  "str_join sep items = bind_r (join_from 0 items) (\<lambda>ss. Inr (intercalate sep ss))"

text \<open>
  \<open>json.dumps\<close> is modelled up to the text it writes: the result stands for the JSON text
  of the value, keys in insertion order. It raises \<open>TypeError\<close> on a value that holds
  \<open>bytes\<close> anywhere.
\<close>

primrec json_serializable :: "pyval \<Rightarrow> bool" where
  "json_serializable PNone = True"
| "json_serializable (PBool b) = True"
| "json_serializable (PInt i) = True"
| "json_serializable (PStr s) = True"
| "json_serializable (PBytes b) = False"
| "json_serializable (PList xs) = list_all id (map json_serializable xs)"
| "json_serializable (PDict kvs) = list_all id (map (\<lambda>kv. snd kv) (map (map_prod id json_serializable) kvs))"

definition json_dumps :: "pyval \<Rightarrow> exn + pyval" where
  "json_dumps v =
     (if json_serializable v then Inr v
      else Inl (Exn ''TypeError'' ''Object of type bytes is not JSON serializable''))"

text \<open>
  \<open>bytes.split()\<close> with no argument: the maximal runs of non-whitespace bytes, in order.
\<close>

definition is_space :: "char \<Rightarrow> bool" where
  "is_space c = (c \<in> set [CHR 0x20, CHR 0x09, CHR 0x0A, CHR 0x0D, CHR 0x0B, CHR 0x0C])"

fun split_ws :: "string \<Rightarrow> string \<Rightarrow> string list" where
  "split_ws cur [] = (if cur = [] then [] else [cur])"
| "split_ws cur (c # cs) =
     (if is_space c then (if cur = [] then split_ws [] cs else cur # split_ws [] cs)
      else split_ws (cur @ [c]) cs)"

definition bytes_split :: "string \<Rightarrow> string list" where
  "bytes_split b = split_ws [] b"

text \<open>
  The slice \<open>xs[start:]\<close>: a negative start counts from the end and is clamped at the
  front, a start beyond the end gives the empty list.
\<close>

definition slice_from :: "'a list \<Rightarrow> int \<Rightarrow> 'a list" where
  "slice_from xs start =
     (let n = int (length xs);
          s = (if start < 0 then max 0 (start + n) else min start n)
      in drop (nat s) xs)"


section \<open>Mail messages\<close>

text \<open>
  A parsed message as the \<open>email\<close> package holds it: its headers in order, the content type
  that \<open>get_content_type()\<close> reports, and either one body (kept as the bytes that
  \<open>get_payload(decode=True)\<close> returns) or a list of sub-messages.
\<close>

datatype message =
    Single "(string \<times> string) list" string string
  | Multipart "(string \<times> string) list" string "message list"

primrec headers :: "message \<Rightarrow> (string \<times> string) list" where
  "headers (Single h c p) = h"
| "headers (Multipart h c ps) = h"

primrec get_content_type :: "message \<Rightarrow> string" where
  "get_content_type (Single h c p) = c"
| "get_content_type (Multipart h c ps) = c"

primrec is_multipart :: "message \<Rightarrow> bool" where
  "is_multipart (Single h c p) = False"
| "is_multipart (Multipart h c ps) = True"

text \<open>\<open>get_payload(decode=True)\<close>: \<open>None\<close> on a multipart message.\<close>

primrec get_payload_decoded :: "message \<Rightarrow> string option" where
  "get_payload_decoded (Single h c p) = Some p"
| "get_payload_decoded (Multipart h c ps) = None"

text \<open>\<open>walk()\<close>: the message itself, then every sub-message, depth first, in order.\<close>

fun walk :: "message \<Rightarrow> message list" where
  "walk (Single h c p) = [Single h c p]"
| "walk (Multipart h c ps) = Multipart h c ps # concat (map walk ps)"

definition lower_char :: "char \<Rightarrow> char" where
  "lower_char c =
     (case map_of (zip ''ABCDEFGHIJKLMNOPQRSTUVWXYZ'' ''abcdefghijklmnopqrstuvwxyz'') c of
        None \<Rightarrow> c | Some d \<Rightarrow> d)"

text \<open>\<open>msg[name]\<close>: the first header of that name, compared without case; \<open>None\<close> if absent.\<close>

definition msg_getitem :: "message \<Rightarrow> string \<Rightarrow> pyval" where
  "msg_getitem m name =
     (case find (\<lambda>h. map lower_char (fst h) = map lower_char name) (headers m) of
        None \<Rightarrow> PNone | Some h \<Rightarrow> PStr (snd h))"

section \<open>The world outside the process\<close>

text \<open>
  Every library call that reaches outside the process is an outcome the world fixes: it
  raises (\<open>Some e\<close>, \<open>Inl e\<close>) or it returns. The program below is run against an arbitrary
  world.
\<close>

record smtp_world =
  smtp_connect :: "string \<Rightarrow> int \<Rightarrow> exn option"
  smtp_starttls :: "exn option"
  smtp_login :: "pyval \<Rightarrow> pyval \<Rightarrow> exn option"
  mime_message :: "pyval \<Rightarrow> pyval \<Rightarrow> string \<Rightarrow> string \<Rightarrow> exn + string"
  smtp_sendmail :: "pyval \<Rightarrow> pyval \<Rightarrow> string \<Rightarrow> exn option"
  smtp_quit :: "exn option"

record imap_world =
  imap_connect :: "string \<Rightarrow> int \<Rightarrow> exn option"
  imap_login :: "pyval \<Rightarrow> pyval \<Rightarrow> exn option"
  imap_select :: "string \<Rightarrow> exn option"
  imap_search :: "string \<Rightarrow> exn + string option"
  imap_fetch :: "string \<Rightarrow> exn + string"
  imap_close :: "exn option"
  imap_logout :: "exn option"

record world =
  getenv :: "string \<Rightarrow> pyval"
  conn_pending :: "exn + string"
  conn_sendall_result :: "nat \<Rightarrow> exn option"
  json_loads :: "string \<Rightarrow> exn + pyval"
  builtin_str :: "pyval \<Rightarrow> string"
  bytes_decode :: "string \<Rightarrow> exn + string"
  requests_get :: "string \<Rightarrow> pyval \<Rightarrow> exn + string"
  response_json :: "string \<Rightarrow> exn + pyval"
  message_from_bytes :: "string \<Rightarrow> message"
  smtp :: smtp_world
  imap :: imap_world

text \<open>
  \<^item> \<open>getenv\<close>: \<open>os.getenv(name)\<close>, a string or \<open>None\<close>.
  \<^item> \<open>conn_pending\<close>: what the peer has sent when \<open>conn.recv\<close> is called, or the exception
    \<open>recv\<close> raises; \<open>conn_sendall_result k\<close>: whether the \<open>k\<close>-th \<open>conn.sendall\<close> of this
    connection raises (a call that raises delivers nothing).
  \<^item> \<open>json_loads\<close>: \<open>json.loads(data.decode('utf-8'))\<close> on the received bytes;
    \<open>response_json\<close>: \<open>response.json()\<close> on the body that \<open>requests.get\<close> returned.
  \<^item> \<open>builtin_str\<close>: \<open>str(v)\<close> for a value that is not a string (inside an f-string);
    \<open>bytes_decode\<close>: \<open>b.decode()\<close>.
  \<^item> \<open>mime_message\<close>: lines 38 to 42 and \<open>msg.as_string()\<close>, from the sender, the
    recipient, the subject and the body; \<open>imap_search\<close>: \<open>search_data[0]\<close>, bytes or
    \<open>None\<close>; \<open>imap_fetch\<close>: lines 74 and 75, the raw message \<open>msg_data[0][1]\<close>.
\<close>

section \<open>class EmailAutomation\<close>

record EmailAutomation =
  email_address :: pyval
  email_password :: pyval
  imap_server :: string
  smtp_server :: string
  imap_port :: int
  smtp_port :: int

definition EmailAutomation_init :: "pyval \<Rightarrow> pyval \<Rightarrow> string \<Rightarrow> string \<Rightarrow> EmailAutomation" where
  "EmailAutomation_init address password imap_srv smtp_srv =
     \<lparr>email_address = address, email_password = password,
      imap_server = imap_srv, smtp_server = smtp_srv,
      imap_port = 993, smtp_port = 587\<rparr>"

subsection \<open>send_email\<close>

text \<open>The body of the \<open>try\<close>, lines 32 to 48.\<close>

definition send_email_try ::
  "world \<Rightarrow> EmailAutomation \<Rightarrow> pyval \<Rightarrow> string \<Rightarrow> string \<Rightarrow> exn + (bool \<times> string)" where
  "send_email_try w self recipient_email subject body =
     then_r (smtp_connect (smtp w) (smtp_server self) (smtp_port self))
    (then_r (smtp_starttls (smtp w))
    (then_r (smtp_login (smtp w) (email_address self) (email_password self))
    (bind_r (mime_message (smtp w) (email_address self) recipient_email subject body) (\<lambda>msg.
     then_r (smtp_sendmail (smtp w) (email_address self) recipient_email msg)
    (then_r (smtp_quit (smtp w))
    (Inr (True, ''Email sent successfully'')))))))"

definition send_email ::
  "world \<Rightarrow> EmailAutomation \<Rightarrow> pyval \<Rightarrow> string \<Rightarrow> string \<Rightarrow> bool \<times> string" where
  "send_email w self recipient_email subject body =
     (case send_email_try w self recipient_email subject body of
        Inr r \<Rightarrow> r
      | Inl e \<Rightarrow> (False, exn_text e))"

subsection \<open>_get_email_body\<close>

text \<open>\<open>part.get_payload(decode=True).decode()\<close>\<close>

definition payload_text :: "world \<Rightarrow> message \<Rightarrow> exn + string" where
  "payload_text w part =
     (case get_payload_decoded part of
        None \<Rightarrow> Inl (Exn ''AttributeError''
                 (quoted ''NoneType'' @ '' object has no attribute '' @ quoted ''decode''))
      | Some b \<Rightarrow> bytes_decode w b)"

text \<open>
  The loop of lines 104 to 108 over the parts still to come: \<open>body\<close> keeps its initial
  value \<open>""\<close> when the parts run out, and the first \<open>text/plain\<close> part ends the loop.
\<close>

fun body_loop :: "world \<Rightarrow> message list \<Rightarrow> exn + string" where
  "body_loop w [] = Inr []"
| "body_loop w (part # parts) =
     (if get_content_type part = ''text/plain'' then payload_text w part
      else body_loop w parts)"

definition get_email_body :: "world \<Rightarrow> message \<Rightarrow> exn + string" where
  "get_email_body w email_message =
     (if is_multipart email_message then body_loop w (walk email_message)
      else payload_text w email_message)"


subsection \<open>fetch_recent_emails\<close>

text \<open>One round of the loop of lines 73 to 88: the summary of the message \<open>email_id\<close>.\<close>

definition email_summary :: "world \<Rightarrow> string \<Rightarrow> exn + pyval" where
  "email_summary w email_id =
     bind_r (imap_fetch (imap w) email_id) (\<lambda>raw_email.
       let email_message = message_from_bytes w raw_email;
           subject = msg_getitem email_message ''Subject'';
           sender = msg_getitem email_message ''From''
       in bind_r (get_email_body w email_message) (\<lambda>body.
            Inr (PDict [(''id'', PBytes email_id), (''subject'', subject),
                        (''sender'', sender), (''body'', PStr body)])))"

fun fetch_loop :: "world \<Rightarrow> string list \<Rightarrow> pyval list \<Rightarrow> exn + pyval list" where
  "fetch_loop w [] emails = Inr emails"
| "fetch_loop w (email_id # rest) emails =
     (case email_summary w email_id of
        Inl e \<Rightarrow> Inl e
      | Inr summary \<Rightarrow> fetch_loop w rest (emails @ [summary]))"

text \<open>\<open>search_data[0].split()\<close>, line 69.\<close>

definition search_ids :: "string option \<Rightarrow> exn + string list" where
  "search_ids d =
     (case d of
        None \<Rightarrow> Inl (Exn ''AttributeError''
                 (quoted ''NoneType'' @ '' object has no attribute '' @ quoted ''split''))
      | Some b \<Rightarrow> Inr (bytes_split b))"

text \<open>The body of the \<open>try\<close>, lines 62 to 93.\<close>

definition fetch_recent_emails_try ::
  "world \<Rightarrow> EmailAutomation \<Rightarrow> string \<Rightarrow> int \<Rightarrow> exn + pyval list" where
  "fetch_recent_emails_try w self search_criteria limit =
     then_r (imap_connect (imap w) (imap_server self) (imap_port self))
    (then_r (imap_login (imap w) (email_address self) (email_password self))
    (then_r (imap_select (imap w) ''inbox'')
    (bind_r (imap_search (imap w) search_criteria) (\<lambda>search_data0.
     bind_r (search_ids search_data0) (\<lambda>email_ids.
     bind_r (fetch_loop w (slice_from email_ids (- limit)) []) (\<lambda>emails.
     then_r (imap_close (imap w))
    (then_r (imap_logout (imap w))
    (Inr emails))))))))"

definition fetch_recent_emails ::
  "world \<Rightarrow> EmailAutomation \<Rightarrow> string \<Rightarrow> int \<Rightarrow> pyval list" where
  "fetch_recent_emails w self search_criteria limit =
     (case fetch_recent_emails_try w self search_criteria limit of
        Inr emails \<Rightarrow> emails
      | Inl e \<Rightarrow> [])"

subsection \<open>get_recipe_ingredients\<close>

text \<open>The comprehension of line 131 over the items drawn from the ingredient list.\<close>

fun originals :: "pyval list \<Rightarrow> exn + pyval list" where
  "originals [] = Inr []"
| "originals (ingredient # rest) =
     (case getitem_str ingredient ''original'' of
        Inl e \<Rightarrow> Inl e
      | Inr v \<Rightarrow> (case originals rest of Inl e \<Rightarrow> Inl e | Inr vs \<Rightarrow> Inr (v # vs)))"

definition recipe_url :: string where
  "recipe_url = ''https://api.spoonacular.com/recipes/complexSearch''"

definition recipe_params :: "pyval \<Rightarrow> pyval \<Rightarrow> pyval" where
  "recipe_params food_type api_key =
     PDict [(''query'', food_type), (''apiKey'', api_key), (''number'', PInt 1),
            (''addRecipeInformation'', PBool True), (''fillIngredients'', PBool True)]"

text \<open>The body of the \<open>try\<close>, lines 127 to 134.\<close>

definition get_recipe_ingredients_try :: "world \<Rightarrow> pyval \<Rightarrow> pyval \<Rightarrow> exn + pyval list" where
  "get_recipe_ingredients_try w food_type api_key =
     bind_r (requests_get w recipe_url (recipe_params food_type api_key)) (\<lambda>response.
     bind_r (response_json w response) (\<lambda>data.
     bind_r (getitem_str data ''results'') (\<lambda>results.
       if truthy results then
         bind_r (getitem_0 results) (\<lambda>first.
         bind_r (getitem_str first ''extendedIngredients'') (\<lambda>extended.
         bind_r (py_iter extended) originals))
       else Inr [])))"

definition get_recipe_ingredients :: "world \<Rightarrow> pyval \<Rightarrow> pyval \<Rightarrow> pyval list" where
  "get_recipe_ingredients w food_type api_key =
     (case get_recipe_ingredients_try w food_type api_key of
        Inr ingredients \<Rightarrow> ingredients
      | Inl e \<Rightarrow> [])"

section \<open>handle_client_connection\<close>

text \<open>
  The connection: the payloads the client has received (each stands for the JSON text
  written), the number of \<open>sendall\<close> calls made, and whether the socket is closed.
\<close>

record conn =
  delivered :: "pyval list"
  sendall_calls :: nat
  closed :: bool

definition accepted :: conn where
  "accepted = \<lparr>delivered = [], sendall_calls = 0, closed = False\<rparr>"

definition conn_recv :: "world \<Rightarrow> nat \<Rightarrow> exn + string" where
  "conn_recv w bufsize = (case conn_pending w of Inl e \<Rightarrow> Inl e | Inr bs \<Rightarrow> Inr (take bufsize bs))"

definition conn_sendall :: "world \<Rightarrow> conn \<Rightarrow> pyval \<Rightarrow> conn \<times> exn option" where
  "conn_sendall w c payload =
     (case conn_sendall_result w (sendall_calls c) of
        None \<Rightarrow> (c\<lparr>delivered := delivered c @ [payload], sendall_calls := Suc (sendall_calls c)\<rparr>, None)
      | Some e \<Rightarrow> (c\<lparr>sendall_calls := Suc (sendall_calls c)\<rparr>, Some e))"

definition conn_close :: "conn \<Rightarrow> conn" where
  "conn_close c = c\<lparr>closed := True\<rparr>"

text \<open>An f-string field \<open>{v}\<close>.\<close>

definition format_value :: "world \<Rightarrow> pyval \<Rightarrow> string" where
  "format_value w v = (case v of PStr s \<Rightarrow> s | _ \<Rightarrow> builtin_str w v)"

definition recipe_subject :: "world \<Rightarrow> pyval \<Rightarrow> string" where
  "recipe_subject w food_type = ''Ingredients for '' @ format_value w food_type @ '' Recipe''"

definition recipe_body :: "world \<Rightarrow> pyval \<Rightarrow> string \<Rightarrow> string" where
  "recipe_body w food_type ingredients_list =
     ''Here are the ingredients for your '' @ format_value w food_type @ '' recipe:'' @
     [CHR 0x0A, CHR 0x0A] @ ingredients_list"

definition invalid_request :: pyval where
  "invalid_request = PDict [(''success'', PBool False), (''message'', PStr ''Invalid request type'')]"

definition no_ingredients :: pyval where
  "no_ingredients = PDict [(''success'', PBool False), (''message'', PStr ''No ingredients found''),
                           (''ingredients'', PList [])]"

type_synonym mail_call = "pyval \<times> string \<times> string"

text \<open>
  Lines 163 to 193, the \<open>recipe\<close> branch. The result is the list of calls made to
  \<open>send_email\<close> (recipient, subject, body) and the response, or the exception raised.
\<close>

definition recipe_request ::
  "world \<Rightarrow> EmailAutomation \<Rightarrow> pyval \<Rightarrow> mail_call list \<times> (exn + pyval)" where
  "recipe_request w email_automation request_data =
     (case py_get request_data ''food_type'' PNone of
        Inl e \<Rightarrow> ([], Inl e)
      | Inr food_type \<Rightarrow>
     (case py_get request_data ''recipient_email'' PNone of
        Inl e \<Rightarrow> ([], Inl e)
      | Inr recipient_email \<Rightarrow>
        let ingredients = get_recipe_ingredients w food_type (getenv w ''SPOONACULAR_API_KEY'')
        in if ingredients \<noteq> [] then
             (case str_join [CHR 0x0A] ingredients of
                Inl e \<Rightarrow> ([], Inl e)
              | Inr ingredients_list \<Rightarrow>
                  let subject = recipe_subject w food_type;
                      body = recipe_body w food_type ingredients_list;
                      sent = send_email w email_automation recipient_email subject body
                  in ([(recipient_email, subject, body)],
                      Inr (PDict [(''success'', PBool (fst sent)), (''message'', PStr (snd sent)),
                                  (''ingredients'', PList ingredients)])))
           else ([], Inr no_ingredients)))"

text \<open>Lines 153 to 208: from the decoded request to the response.\<close>

definition dispatch_request :: "world \<Rightarrow> pyval \<Rightarrow> mail_call list \<times> (exn + pyval)" where
  "dispatch_request w request_data =
     (case py_get request_data ''type'' (PStr ''recipe'') of
        Inl e \<Rightarrow> ([], Inl e)
      | Inr request_type \<Rightarrow>
        let email_automation =
              EmailAutomation_init (getenv w ''EMAIL_ADDRESS'') (getenv w ''EMAIL_PASSWORD'')
                ''imap.gmail.com'' ''smtp.gmail.com''
        in if request_type = PStr ''recipe'' then recipe_request w email_automation request_data
           else if request_type = PStr ''fetch_emails'' then
             ([], Inr (PDict [(''success'', PBool True),
                              (''emails'', PList (fetch_recent_emails w email_automation ''UNSEEN'' 5))]))
           else ([], Inr invalid_request))"

text \<open>
  The \<open>try\<close> block, lines 144 to 211: the connection after it, the calls made to
  \<open>send_email\<close>, and the exception it raised, if any. The early \<open>return\<close> of line 147 ends
  it with no exception.
\<close>

definition try_block :: "world \<Rightarrow> conn \<Rightarrow> conn \<times> mail_call list \<times> exn option" where
  "try_block w c =
     (case conn_recv w 1024 of
        Inl e \<Rightarrow> (c, [], Some e)
      | Inr data \<Rightarrow>
          if data = [] then (c, [], None)
          else (case json_loads w data of
                  Inl e \<Rightarrow> (c, [], Some e)
                | Inr request_data \<Rightarrow>
                    (case dispatch_request w request_data of
                       (calls, Inl e) \<Rightarrow> (c, calls, Some e)
                     | (calls, Inr response) \<Rightarrow>
                         (case json_dumps response of
                            Inl e \<Rightarrow> (c, calls, Some e)
                          | Inr payload \<Rightarrow>
                              (case conn_sendall w c payload of (c', r) \<Rightarrow> (c', calls, r))))))"

text \<open>The \<open>except\<close> block, lines 214 to 219.\<close>

definition error_response :: "exn \<Rightarrow> pyval" where
  "error_response e = PDict [(''success'', PBool False), (''message'', PStr (exn_text e))]"

definition except_block :: "world \<Rightarrow> conn \<Rightarrow> exn \<Rightarrow> conn \<times> exn option" where
  "except_block w c e =
     (case json_dumps (error_response e) of
        Inl e' \<Rightarrow> (c, Some e')
      | Inr payload \<Rightarrow> conn_sendall w c payload)"

text \<open>
  The outcome of handling one connection: the connection at the end, the calls made to
  \<open>send_email\<close>, and the exception that left the handler, if any (one raised inside the
  \<open>except\<close> block). The \<open>finally\<close> clause closes the socket on every path; \<open>close\<close> itself
  does not raise. Only exceptions of class \<open>Exception\<close> are modelled, the ones that the
  \<open>except\<close> clauses of the program catch.
\<close>

record outcome =
  final_conn :: conn
  mail_calls :: "mail_call list"
  escaped :: "exn option"

definition handle_client_connection :: "world \<Rightarrow> outcome" where
  "handle_client_connection w =
     (case try_block w accepted of
        (c, calls, None) \<Rightarrow>
          \<lparr>final_conn = conn_close c, mail_calls = calls, escaped = None\<rparr>
      | (c, calls, Some e) \<Rightarrow>
          (case except_block w c e of
             (c', r) \<Rightarrow> \<lparr>final_conn = conn_close c', mail_calls = calls, escaped = r\<rparr>))"


section \<open>Example worlds\<close>

text \<open>
  A world in which every server answers: the recipe service knows one pasta recipe, the
  inbox holds three unread messages, and the peer has sent a \<open>fetch_emails\<close> request.
  The scenarios below change one field at a time.
\<close>

definition ok_smtp :: smtp_world where
  "ok_smtp =
     \<lparr>smtp_connect = (\<lambda>host port. None),
      smtp_starttls = None,
      smtp_login = (\<lambda>address password. None),
      mime_message = (\<lambda>sender recipient subject body.
         Inr (''Subject: '' @ subject @ [CHR 0x0A, CHR 0x0A] @ body)),
      smtp_sendmail = (\<lambda>sender recipient msg. None),
      smtp_quit = None\<rparr>"

definition msg_plain :: message where
  "msg_plain = Single [(''Subject'', ''Hi''), (''From'', ''bob@example.org'')] ''text/plain'' ''hello''"

definition msg_html_only :: message where
  "msg_html_only =
     Multipart [(''SUBJECT'', ''Offer''), (''From'', ''shop@example.org'')] ''multipart/alternative''
       [Single [] ''text/html'' ''<p>hi</p>'']"

definition msg_two_plain :: message where
  "msg_two_plain =
     Multipart [(''From'', ''eve@example.org'')] ''multipart/mixed''
       [Multipart [] ''multipart/alternative''
          [Single [] ''text/html'' ''<b>a</b>'', Single [] ''text/plain'' ''first''],
        Single [] ''text/plain'' ''second'']"

definition ok_imap :: imap_world where
  "ok_imap =
     \<lparr>imap_connect = (\<lambda>host port. None),
      imap_login = (\<lambda>address password. None),
      imap_select = (\<lambda>mailbox. None),
      imap_search = (\<lambda>criteria. Inr (Some ''1 2 3'')),
      imap_fetch = (\<lambda>email_id.
         if email_id = ''1'' then Inr ''raw1''
         else if email_id = ''2'' then Inr ''raw2''
         else if email_id = ''3'' then Inr ''raw3''
         else Inl (Exn ''error'' ''FETCH command error: BAD'')),
      imap_close = None,
      imap_logout = None\<rparr>"

definition recipe_req :: "(string \<times> pyval) list" where
  "recipe_req = [(''type'', PStr ''recipe''), (''food_type'', PStr ''pasta''),
                 (''recipient_email'', PStr ''a@b.com'')]"

definition untyped_req :: "(string \<times> pyval) list" where
  "untyped_req = [(''food_type'', PStr ''pasta''), (''recipient_email'', PStr ''a@b.com'')]"

definition demo_loads :: "string \<Rightarrow> exn + pyval" where
  \<open>demo_loads data =
     (if data = ''{"type":"recipe","food_type":"pasta","recipient_email":"a@b.com"}''
        then Inr (PDict recipe_req)
      else if data = ''{"food_type":"pasta","recipient_email":"a@b.com"}''
        then Inr (PDict untyped_req)
      else if data = ''{"type":"fetch_emails"}''
        then Inr (PDict [(''type'', PStr ''fetch_emails'')])
      else if data = ''{"type":"ping"}''
        then Inr (PDict [(''type'', PStr ''ping'')])
      else Inl (Exn ''JSONDecodeError'' ''Expecting value: line 1 column 1 (char 0)''))\<close>

definition pasta_data :: pyval where
  "pasta_data =
     PDict [(''results'', PList [PDict [(''id'', PInt 7), (''extendedIngredients'',
        PList [PDict [(''original'', PStr ''200g pasta'')],
               PDict [(''original'', PStr ''1 onion'')]])]])]"

definition demo_world :: world where
  \<open>demo_world =
     \<lparr>getenv = (\<lambda>name.
         if name = ''EMAIL_ADDRESS'' then PStr ''me@example.org''
         else if name = ''EMAIL_PASSWORD'' then PStr ''secret''
         else if name = ''SPOONACULAR_API_KEY'' then PStr ''key''
         else PNone),
      conn_pending = Inr ''{"type":"fetch_emails"}'',
      conn_sendall_result = (\<lambda>k. None),
      json_loads = demo_loads,
      builtin_str = (\<lambda>v. ''None''),
      bytes_decode = (\<lambda>b. Inr b),
      requests_get = (\<lambda>url params. Inr ''pasta''),
      response_json = (\<lambda>body. Inr pasta_data),
      message_from_bytes = (\<lambda>raw.
         if raw = ''raw1'' then msg_plain
         else if raw = ''raw2'' then msg_html_only
         else msg_two_plain),
      smtp = ok_smtp,
      imap = ok_imap\<rparr>\<close>

definition demo_account :: EmailAutomation where
  "demo_account =
     EmailAutomation_init (PStr ''me@example.org'') (PStr ''secret'')
       ''imap.gmail.com'' ''smtp.gmail.com''"

text \<open>The peer sends a \<open>recipe\<close> request.\<close>

definition recipe_world :: world where
  \<open>recipe_world =
     demo_world\<lparr>conn_pending :=
       Inr ''{"type":"recipe","food_type":"pasta","recipient_email":"a@b.com"}''\<rparr>\<close>

text \<open>The peer sends the same request without its \<open>type\<close> field.\<close>

definition untyped_world :: world where
  \<open>untyped_world =
     demo_world\<lparr>conn_pending := Inr ''{"food_type":"pasta","recipient_email":"a@b.com"}''\<rparr>\<close>

text \<open>The peer sends a request of an unknown type.\<close>

definition ping_world :: world where
  \<open>ping_world = demo_world\<lparr>conn_pending := Inr ''{"type":"ping"}''\<rparr>\<close>

text \<open>The peer closes its side without sending anything: \<open>recv\<close> returns \<open>b""\<close>.\<close>

definition silent_world :: world where
  "silent_world = demo_world\<lparr>conn_pending := Inr []\<rparr>"

text \<open>The recipe service finds nothing.\<close>

definition no_recipe_world :: world where
  "no_recipe_world =
     recipe_world\<lparr>response_json := (\<lambda>body. Inr (PDict [(''results'', PList [])]))\<rparr>"

text \<open>The recipe service cannot be reached.\<close>

definition api_down_world :: world where
  "api_down_world =
     recipe_world\<lparr>requests_get := (\<lambda>url params.
        Inl (Exn ''ConnectionError'' ''Max retries exceeded''))\<rparr>"

text \<open>The mail server refuses the password.\<close>

definition bad_login_world :: world where
  "bad_login_world =
     recipe_world\<lparr>smtp := ok_smtp\<lparr>smtp_login := (\<lambda>address password.
        Some (Exn ''SMTPAuthenticationError'' ''(535, Username and Password not accepted)''))\<rparr>\<rparr>"

text \<open>The inbox holds exactly one unread message, a plain one.\<close>

definition one_mail_world :: world where
  "one_mail_world = demo_world\<lparr>imap := ok_imap\<lparr>imap_search := (\<lambda>criteria. Inr (Some ''1''))\<rparr>\<rparr>"


text \<open>The peer sends bytes that are not JSON.\<close>

definition garbage_world :: world where
  "garbage_world = demo_world\<lparr>conn_pending := Inr ''hello''\<rparr>"

text \<open>The three unread messages are all fetched, and then \<open>logout\<close> fails.\<close>

definition logout_fails_world :: world where
  "logout_fails_world =
     demo_world\<lparr>imap := ok_imap\<lparr>imap_logout :=
        Some (Exn ''abort'' ''socket error: EOF'')\<rparr>\<rparr>"

section \<open>Properties\<close>

declare nat_digits.simps [simp del]

subsection \<open>Body extraction\<close>


lemma body_loop_no_text_plain:
  "list_all (\<lambda>p. get_content_type p \<noteq> ''text/plain'') parts \<Longrightarrow> body_loop w parts = Inr []"
  by (induction parts) simp_all



text \<open>
  Claim C10. A multipart message none of whose parts has content type \<open>text/plain\<close> gets
  the empty string as its body, and the loop of \<open>fetch_recent_emails\<close> still produces its
  summary, with \<open>body = ""\<close>.
\<close>

theorem multipart_without_text_plain_empty_body:
  assumes "is_multipart m"
    and "list_all (\<lambda>p. get_content_type p \<noteq> ''text/plain'') (walk m)"
  shows "get_email_body w m = Inr [] \<and>
         (imap_fetch (imap w) email_id = Inr raw \<and> message_from_bytes w raw = m \<longrightarrow>
            email_summary w email_id =
              Inr (PDict [(''id'', PBytes email_id), (''subject'', msg_getitem m ''Subject''),
                          (''sender'', msg_getitem m ''From''), (''body'', PStr [])]))"
  using assms
  by (simp add: get_email_body_def body_loop_no_text_plain email_summary_def bind_r_def)

theorem multipart_without_text_plain_empty_body_witness:
  "is_multipart msg_html_only \<and>
   list_all (\<lambda>p. get_content_type p \<noteq> ''text/plain'') (walk msg_html_only) \<and>
   get_email_body demo_world msg_html_only = Inr [] \<and>
   email_summary demo_world ''2'' =
     Inr (PDict [(''id'', PBytes ''2''), (''subject'', PStr ''Offer''),
                 (''sender'', PStr ''shop@example.org''), (''body'', PStr [])])"
proof -
  have m: "is_multipart msg_html_only"
    by (simp add: msg_html_only_def)
  have n: "list_all (\<lambda>p. get_content_type p \<noteq> ''text/plain'') (walk msg_html_only)"
    by (simp add: msg_html_only_def)
  have f: "imap_fetch (imap demo_world) ''2'' = Inr ''raw2'' \<and>
           message_from_bytes demo_world ''raw2'' = msg_html_only"
    by (simp add: demo_world_def ok_imap_def)
  have s: "msg_getitem msg_html_only ''Subject'' = PStr ''Offer''"
    by (simp add: msg_getitem_def msg_html_only_def lower_char_def)
  have r: "msg_getitem msg_html_only ''From'' = PStr ''shop@example.org''"
    by (simp add: msg_getitem_def msg_html_only_def lower_char_def)
  from multipart_without_text_plain_empty_body [OF m n, of demo_world "''2''" "''raw2''"] f s r m n
  show ?thesis by simp
qed

subsection \<open>Mail Sender\<close>

text \<open>
  Claim C7. \<open>send_email\<close> never raises to its caller: its result is always a pair. When
  every step of the session succeeds it is \<open>(True, "Email sent successfully")\<close>; when a
  step fails (connecting, STARTTLS, the login, building the message, \<open>sendmail\<close>, \<open>quit\<close>)
  the exception of the first failing step is caught and the result is \<open>(False, str(e))\<close>.
\<close>

theorem send_email_never_raises:
  "(smtp_connect (smtp w) (smtp_server self) (smtp_port self) = Some e \<longrightarrow>
      send_email w self recipient subject body = (False, exn_text e)) \<and>
   (smtp_connect (smtp w) (smtp_server self) (smtp_port self) = None \<and>
    smtp_starttls (smtp w) = Some e \<longrightarrow>
      send_email w self recipient subject body = (False, exn_text e)) \<and>
   (smtp_connect (smtp w) (smtp_server self) (smtp_port self) = None \<and>
    smtp_starttls (smtp w) = None \<and>
    smtp_login (smtp w) (email_address self) (email_password self) = Some e \<longrightarrow>
      send_email w self recipient subject body = (False, exn_text e)) \<and>
   (smtp_connect (smtp w) (smtp_server self) (smtp_port self) = None \<and>
    smtp_starttls (smtp w) = None \<and>
    smtp_login (smtp w) (email_address self) (email_password self) = None \<and>
    mime_message (smtp w) (email_address self) recipient subject body = Inl e \<longrightarrow>
      send_email w self recipient subject body = (False, exn_text e)) \<and>
   (smtp_connect (smtp w) (smtp_server self) (smtp_port self) = None \<and>
    smtp_starttls (smtp w) = None \<and>
    smtp_login (smtp w) (email_address self) (email_password self) = None \<and>
    mime_message (smtp w) (email_address self) recipient subject body = Inr msg \<and>
    smtp_sendmail (smtp w) (email_address self) recipient msg = Some e \<longrightarrow>
      send_email w self recipient subject body = (False, exn_text e)) \<and>
   (smtp_connect (smtp w) (smtp_server self) (smtp_port self) = None \<and>
    smtp_starttls (smtp w) = None \<and>
    smtp_login (smtp w) (email_address self) (email_password self) = None \<and>
    mime_message (smtp w) (email_address self) recipient subject body = Inr msg \<and>
    smtp_sendmail (smtp w) (email_address self) recipient msg = None \<and>
    smtp_quit (smtp w) = Some e \<longrightarrow>
      send_email w self recipient subject body = (False, exn_text e)) \<and>
   (smtp_connect (smtp w) (smtp_server self) (smtp_port self) = None \<and>
    smtp_starttls (smtp w) = None \<and>
    smtp_login (smtp w) (email_address self) (email_password self) = None \<and>
    mime_message (smtp w) (email_address self) recipient subject body = Inr msg \<and>
    smtp_sendmail (smtp w) (email_address self) recipient msg = None \<and>
    smtp_quit (smtp w) = None \<longrightarrow>
      send_email w self recipient subject body = (True, ''Email sent successfully'')) \<and>
   (send_email w self recipient subject body = (True, ''Email sent successfully'') \<or>
    (\<exists>x. send_email_try w self recipient subject body = Inl x \<and>
         send_email w self recipient subject body = (False, exn_text x)))"
  by (auto simp add: send_email_def send_email_try_def then_r_def bind_r_def
      split: option.splits sum.splits)

theorem send_email_never_raises_witness:
  "smtp_connect (smtp bad_login_world) (smtp_server demo_account) (smtp_port demo_account) = None \<and>
   smtp_starttls (smtp bad_login_world) = None \<and>
   smtp_login (smtp bad_login_world) (email_address demo_account) (email_password demo_account) =
     Some (Exn ''SMTPAuthenticationError'' ''(535, Username and Password not accepted)'') \<and>
   send_email bad_login_world demo_account (PStr ''a@b.com'') ''Hello'' ''Body'' =
     (False, ''(535, Username and Password not accepted)'') \<and>
   send_email recipe_world demo_account (PStr ''a@b.com'') ''Hello'' ''Body'' =
     (True, ''Email sent successfully'')"
proof -
  have c: "smtp_connect (smtp bad_login_world) (smtp_server demo_account) (smtp_port demo_account) = None"
    by (simp add: bad_login_world_def ok_smtp_def)
  have t: "smtp_starttls (smtp bad_login_world) = None"
    by (simp add: bad_login_world_def ok_smtp_def)
  have l: "smtp_login (smtp bad_login_world) (email_address demo_account) (email_password demo_account) =
     Some (Exn ''SMTPAuthenticationError'' ''(535, Username and Password not accepted)'')"
    by (simp add: bad_login_world_def ok_smtp_def)
  have ok: "send_email recipe_world demo_account (PStr ''a@b.com'') ''Hello'' ''Body'' =
     (True, ''Email sent successfully'')"
    by (simp add: send_email_def send_email_try_def then_r_def bind_r_def recipe_world_def
        demo_world_def ok_smtp_def)
  from send_email_never_raises [of bad_login_world demo_account
      "Exn ''SMTPAuthenticationError'' ''(535, Username and Password not accepted)''"
      "PStr ''a@b.com''" "''Hello''" "''Body''"] c t l ok
  show ?thesis by simp
qed

subsection \<open>Recipe Lookup\<close>

lemma originals_dicts:
  "map (\<lambda>i. map_of i ''original'') items = map Some texts \<Longrightarrow>
   originals (map PDict items) = Inr texts"
proof (induction items arbitrary: texts)
  case Nil
  then show ?case by simp
next
  case (Cons i items)
  then obtain t ts where ts: "texts = t # ts" by (cases texts) auto
  with Cons.prems have "map_of i ''original'' = Some t"
    and "map (\<lambda>i. map_of i ''original'') items = map Some ts" by auto
  with Cons.IH [of ts] ts show ?case by (simp add: getitem_str_def)
qed

text \<open>
  Claim C6. \<open>get_recipe_ingredients\<close>: when the parsed response has a non-empty \<open>results\<close>
  array, the result is the \<open>original\<close> entry of every item of the first result's
  \<open>extendedIngredients\<close>, in order; when \<open>results\<close> is empty it is \<open>[]\<close>; and when the
  request fails, the response does not parse, or anything else in the \<open>try\<close> raises, the
  exception is caught and the result is \<open>[]\<close> as well, the same value as for no recipe.
\<close>

theorem get_recipe_ingredients_cases:
  "(requests_get w recipe_url (recipe_params food_type api_key) = Inr response \<and>
    response_json w response = Inr (PDict d) \<and>
    map_of d ''results'' = Some (PList (PDict r # others)) \<and>
    map_of r ''extendedIngredients'' = Some (PList (map PDict items)) \<and>
    map (\<lambda>i. map_of i ''original'') items = map Some texts \<longrightarrow>
      get_recipe_ingredients w food_type api_key = texts) \<and>
   (requests_get w recipe_url (recipe_params food_type api_key) = Inr response \<and>
    response_json w response = Inr (PDict d) \<and>
    map_of d ''results'' = Some (PList []) \<longrightarrow>
      get_recipe_ingredients w food_type api_key = []) \<and>
   (requests_get w recipe_url (recipe_params food_type api_key) = Inl e \<longrightarrow>
      get_recipe_ingredients w food_type api_key = []) \<and>
   (requests_get w recipe_url (recipe_params food_type api_key) = Inr response \<and>
    response_json w response = Inl e \<longrightarrow>
      get_recipe_ingredients w food_type api_key = []) \<and>
   (get_recipe_ingredients_try w food_type api_key = Inl e \<longrightarrow>
      get_recipe_ingredients w food_type api_key = [])"
  by (simp add: get_recipe_ingredients_def get_recipe_ingredients_try_def bind_r_def
      getitem_str_def getitem_0_def truthy_def py_iter_def originals_dicts)


theorem get_recipe_ingredients_cases_witness:
  "requests_get recipe_world recipe_url (recipe_params (PStr ''pasta'') (PStr ''key'')) = Inr ''pasta'' \<and>
   response_json recipe_world ''pasta'' = Inr pasta_data \<and>
   get_recipe_ingredients recipe_world (PStr ''pasta'') (PStr ''key'') =
     [PStr ''200g pasta'', PStr ''1 onion''] \<and>
   get_recipe_ingredients no_recipe_world (PStr ''pasta'') (PStr ''key'') = [] \<and>
   get_recipe_ingredients api_down_world (PStr ''pasta'') (PStr ''key'') = []"
proof -
  have g: "requests_get recipe_world recipe_url (recipe_params (PStr ''pasta'') (PStr ''key'')) = Inr ''pasta''"
    by (simp add: recipe_world_def demo_world_def)
  have j: "response_json recipe_world ''pasta'' =
      Inr (PDict [(''results'', PList [PDict [(''id'', PInt 7), (''extendedIngredients'',
        PList (map PDict [[(''original'', PStr ''200g pasta'')], [(''original'', PStr ''1 onion'')]]))]])])"
    by (simp add: recipe_world_def demo_world_def pasta_data_def)
  have a: "get_recipe_ingredients recipe_world (PStr ''pasta'') (PStr ''key'') =
     [PStr ''200g pasta'', PStr ''1 onion'']"
    using get_recipe_ingredients_cases [where w = recipe_world and food_type = "PStr ''pasta''"
        and api_key = "PStr ''key''" and response = "''pasta''"
        and d = "[(''results'', PList [PDict [(''id'', PInt 7), (''extendedIngredients'',
          PList (map PDict [[(''original'', PStr ''200g pasta'')], [(''original'', PStr ''1 onion'')]]))]])]"
        and r = "[(''id'', PInt 7), (''extendedIngredients'',
          PList (map PDict [[(''original'', PStr ''200g pasta'')], [(''original'', PStr ''1 onion'')]]))]"
        and others = "[]"
        and items = "[[(''original'', PStr ''200g pasta'')], [(''original'', PStr ''1 onion'')]]"
        and texts = "[PStr ''200g pasta'', PStr ''1 onion'']"] g j
    by simp
  have b: "get_recipe_ingredients no_recipe_world (PStr ''pasta'') (PStr ''key'') = []"
    by (simp add: get_recipe_ingredients_def get_recipe_ingredients_try_def bind_r_def
        getitem_str_def truthy_def no_recipe_world_def recipe_world_def demo_world_def)
  have c: "get_recipe_ingredients api_down_world (PStr ''pasta'') (PStr ''key'') = []"
    by (simp add: get_recipe_ingredients_def get_recipe_ingredients_try_def bind_r_def
        api_down_world_def recipe_world_def demo_world_def)
  from g j a b c show ?thesis by (simp add: pasta_data_def)
qed

subsection \<open>Mail Fetcher\<close>

lemma fetch_loop_all:
  "map (email_summary w) ids = map Inr summaries \<Longrightarrow>
   fetch_loop w ids emails = Inr (emails @ summaries)"
proof (induction ids arbitrary: emails summaries)
  case Nil
  then show ?case by simp
next
  case (Cons i ids)
  then obtain s ss where ss: "summaries = s # ss" by (cases summaries) auto
  with Cons.prems have "email_summary w i = Inr s"
    and "map (email_summary w) ids = map Inr ss" by auto
  with Cons.IH [of ss "emails @ [s]"] ss show ?case by simp
qed

lemma slice_from_minus_zero: "slice_from xs (- 0) = xs"
  by (simp add: slice_from_def)

text \<open>
  Claim C9, as amended. With \<open>limit = 0\<close> the slice \<open>email_ids[-limit:]\<close> is the whole
  list, so a call of \<open>fetch_recent_emails\<close> on a non-empty list of matching messages, in
  which every step of the session succeeds (connecting, the login, selecting the inbox, the
  search, the fetch and body extraction of each message, \<open>close\<close> and \<open>logout\<close>), returns
  the summaries of all of them, in order, and not the empty list.
\<close>

theorem fetch_limit_zero_returns_all:
  assumes "imap_connect (imap w) (imap_server self) (imap_port self) = None"
    and "imap_login (imap w) (email_address self) (email_password self) = None"
    and "imap_select (imap w) ''inbox'' = None"
    and "imap_search (imap w) search_criteria = Inr (Some found)"
    and "bytes_split found = email_ids"
    and "email_ids \<noteq> []"
    and "map (email_summary w) email_ids = map Inr summaries"
    and "imap_close (imap w) = None"
    and "imap_logout (imap w) = None"
  shows "slice_from email_ids (- 0) = email_ids \<and>
         fetch_recent_emails w self search_criteria 0 = summaries \<and>
         length (fetch_recent_emails w self search_criteria 0) = length email_ids \<and>
         fetch_recent_emails w self search_criteria 0 \<noteq> []"
proof -
  have len: "length summaries = length email_ids"
    using assms(7) by (metis length_map)
  have "fetch_recent_emails w self search_criteria 0 = summaries"
    using assms fetch_loop_all [of w email_ids summaries "[]"]
    by (simp add: fetch_recent_emails_def fetch_recent_emails_try_def then_r_def bind_r_def
        search_ids_def slice_from_def)
  with len assms(6) show ?thesis
    by (auto simp add: slice_from_def)
qed

lemma demo_summaries:
  "map (email_summary demo_world) [''1'', ''2'', ''3''] = map Inr
     [PDict [(''id'', PBytes ''1''), (''subject'', PStr ''Hi''),
             (''sender'', PStr ''bob@example.org''), (''body'', PStr ''hello'')],
      PDict [(''id'', PBytes ''2''), (''subject'', PStr ''Offer''),
             (''sender'', PStr ''shop@example.org''), (''body'', PStr [])],
      PDict [(''id'', PBytes ''3''), (''subject'', PNone),
             (''sender'', PStr ''eve@example.org''), (''body'', PStr ''first'')]]"
  by (simp add: email_summary_def bind_r_def demo_world_def ok_imap_def msg_plain_def
      msg_html_only_def msg_two_plain_def msg_getitem_def lower_char_def get_email_body_def
      payload_text_def)

theorem fetch_limit_zero_returns_all_witness:
  "imap_search (imap demo_world) ''UNSEEN'' = Inr (Some ''1 2 3'') \<and>
   bytes_split ''1 2 3'' = [''1'', ''2'', ''3''] \<and>
   fetch_recent_emails demo_world demo_account ''UNSEEN'' 0 =
     [PDict [(''id'', PBytes ''1''), (''subject'', PStr ''Hi''),
             (''sender'', PStr ''bob@example.org''), (''body'', PStr ''hello'')],
      PDict [(''id'', PBytes ''2''), (''subject'', PStr ''Offer''),
             (''sender'', PStr ''shop@example.org''), (''body'', PStr [])],
      PDict [(''id'', PBytes ''3''), (''subject'', PNone),
             (''sender'', PStr ''eve@example.org''), (''body'', PStr ''first'')]]"
proof -
  have c: "imap_connect (imap demo_world) (imap_server demo_account) (imap_port demo_account) = None"
    by (simp add: demo_world_def ok_imap_def)
  have l: "imap_login (imap demo_world) (email_address demo_account) (email_password demo_account) = None"
    by (simp add: demo_world_def ok_imap_def)
  have s: "imap_select (imap demo_world) ''inbox'' = None"
    by (simp add: demo_world_def ok_imap_def)
  have f: "imap_search (imap demo_world) ''UNSEEN'' = Inr (Some ''1 2 3'')"
    by (simp add: demo_world_def ok_imap_def)
  have b: "bytes_split ''1 2 3'' = [''1'', ''2'', ''3'']"
    by (simp add: bytes_split_def is_space_def)
  have n: "[''1'', ''2'', ''3''] \<noteq> ([] :: string list)"
    by simp
  have q: "imap_close (imap demo_world) = None"
    by (simp add: demo_world_def ok_imap_def)
  have o: "imap_logout (imap demo_world) = None"
    by (simp add: demo_world_def ok_imap_def)
  from fetch_limit_zero_returns_all [OF c l s f b n demo_summaries q o] f b
  show ?thesis by simp
qed

text \<open>
  The claim as first stated fails when a step of the session fails: with \<open>limit = 0\<close> and
  three matching messages, all fetched, a failing \<open>logout\<close> is caught at line 94 and the
  function returns the empty list.
\<close>

theorem fetch_limit_zero_logout_fails:
  "imap_search (imap logout_fails_world) ''UNSEEN'' = Inr (Some ''1 2 3'') \<and>
   bytes_split ''1 2 3'' = [''1'', ''2'', ''3''] \<and>
   slice_from [''1'', ''2'', ''3''] (- 0) = [''1'', ''2'', ''3''] \<and>
   fetch_loop logout_fails_world [''1'', ''2'', ''3''] [] =
     Inr [PDict [(''id'', PBytes ''1''), (''subject'', PStr ''Hi''),
                 (''sender'', PStr ''bob@example.org''), (''body'', PStr ''hello'')],
          PDict [(''id'', PBytes ''2''), (''subject'', PStr ''Offer''),
                 (''sender'', PStr ''shop@example.org''), (''body'', PStr [])],
          PDict [(''id'', PBytes ''3''), (''subject'', PNone),
                 (''sender'', PStr ''eve@example.org''), (''body'', PStr ''first'')]] \<and>
   imap_logout (imap logout_fails_world) = Some (Exn ''abort'' ''socket error: EOF'') \<and>
   fetch_recent_emails logout_fails_world demo_account ''UNSEEN'' 0 = []"
  by (simp add: fetch_recent_emails_def fetch_recent_emails_try_def search_ids_def
      bytes_split_def is_space_def slice_from_def email_summary_def get_email_body_def
      payload_text_def msg_getitem_def lower_char_def bind_r_def then_r_def
      logout_fails_world_def demo_world_def ok_imap_def msg_plain_def msg_html_only_def
      msg_two_plain_def demo_account_def EmailAutomation_init_def)

subsection \<open>Request Dispatcher\<close>

lemma dispatch_response_dict:
  "dispatch_request w request_data = (calls, Inr response) \<Longrightarrow> \<exists>kvs. response = PDict kvs"
  by (auto simp add: dispatch_request_def recipe_request_def invalid_request_def
      no_ingredients_def Let_def split: sum.splits if_splits)

lemma json_dumps_error_response: "json_dumps (error_response e) = Inr (error_response e)"
  by (simp add: json_dumps_def error_response_def)

lemma handle_reply:
  assumes "conn_recv w 1024 = Inr data" and "data \<noteq> []"
    and "json_loads w data = Inr request_data"
    and "dispatch_request w request_data = (calls, Inr response)"
    and "json_serializable response"
    and "conn_sendall_result w 0 = None"
  shows "handle_client_connection w =
           \<lparr>final_conn = \<lparr>delivered = [response], sendall_calls = 1, closed = True\<rparr>,
            mail_calls = calls, escaped = None\<rparr>"
  using assms
  by (simp add: handle_client_connection_def try_block_def json_dumps_def conn_sendall_def
      accepted_def conn_close_def)

lemma handle_unserializable:
  assumes "conn_recv w 1024 = Inr data" and "data \<noteq> []"
    and "json_loads w data = Inr request_data"
    and "dispatch_request w request_data = (calls, Inr response)"
    and "\<not> json_serializable response"
    and "conn_sendall_result w 0 = None"
  shows "handle_client_connection w =
           \<lparr>final_conn = \<lparr>delivered = [error_response
               (Exn ''TypeError'' ''Object of type bytes is not JSON serializable'')],
              sendall_calls = 1, closed = True\<rparr>,
            mail_calls = calls, escaped = None\<rparr>"
  using assms
  by (simp add: handle_client_connection_def try_block_def json_dumps_def conn_sendall_def
      accepted_def conn_close_def except_block_def error_response_def)

lemma handle_mail_calls:
  assumes "conn_recv w 1024 = Inr data" and "data \<noteq> []"
    and "json_loads w data = Inr request_data"
    and "dispatch_request w request_data = (calls, r)"
  shows "mail_calls (handle_client_connection w) = calls"
  using assms
  by (auto simp add: handle_client_connection_def try_block_def
      split: sum.splits prod.splits option.splits)

lemma try_block_shape:
  assumes "conn_sendall_result w 0 = None"
    and "conn_recv w 1024 \<noteq> Inr []"
    and "try_block w accepted = (c, calls, r)"
  shows "(r = None \<and> (\<exists>kvs. delivered c = [PDict kvs] \<and> json_serializable (PDict kvs))) \<or>
         (r \<noteq> None \<and> c = accepted)"
  using assms
  by (auto simp add: try_block_def conn_sendall_def json_dumps_def accepted_def
      split: sum.splits prod.splits if_splits dest: dispatch_response_dict)

text \<open>
  Claim C4, as amended. The connection is closed on every path. When \<open>recv\<close> raises or
  returns at least one byte and the first \<open>sendall\<close> does not fail, the client receives
  exactly one JSON object (the response, or the error response of the catch-all) and no
  exception leaves the handler. When \<open>recv\<close> returns no data, the handler returns at once
  (line 147): the connection is closed and the client has received nothing.
\<close>

theorem connection_always_closed_one_reply:
  "closed (final_conn (handle_client_connection w)) \<and>
   (conn_recv w 1024 \<noteq> Inr [] \<and> conn_sendall_result w 0 = None \<longrightarrow>
      (\<exists>kvs. delivered (final_conn (handle_client_connection w)) = [PDict kvs] \<and>
             json_serializable (PDict kvs)) \<and>
      escaped (handle_client_connection w) = None) \<and>
   (conn_recv w 1024 = Inr [] \<longrightarrow>
      delivered (final_conn (handle_client_connection w)) = [] \<and>
      escaped (handle_client_connection w) = None)"
proof -
  obtain c calls r where t: "try_block w accepted = (c, calls, r)"
    by (cases "try_block w accepted") auto
  have closed: "closed (final_conn (handle_client_connection w))"
    using t by (simp add: handle_client_connection_def conn_close_def
        split: option.splits prod.splits)
  have silent: "delivered (final_conn (handle_client_connection w)) = [] \<and>
      escaped (handle_client_connection w) = None" if "conn_recv w 1024 = Inr []"
    using that by (simp add: handle_client_connection_def try_block_def accepted_def
        conn_close_def)
  have reply: "(\<exists>kvs. delivered (final_conn (handle_client_connection w)) = [PDict kvs] \<and>
             json_serializable (PDict kvs)) \<and>
      escaped (handle_client_connection w) = None"
    if n: "conn_recv w 1024 \<noteq> Inr []" and s: "conn_sendall_result w 0 = None"
  proof -
    from try_block_shape [OF s n t]
    show ?thesis
    proof
      assume "r = None \<and> (\<exists>kvs. delivered c = [PDict kvs] \<and> json_serializable (PDict kvs))"
      with t show ?thesis
        by (auto simp add: handle_client_connection_def conn_close_def)
    next
      assume "r \<noteq> None \<and> c = accepted"
      then obtain e where "r = Some e" and "c = accepted" by auto
      with t s show ?thesis
        by (simp add: handle_client_connection_def conn_close_def except_block_def
            json_dumps_def conn_sendall_def accepted_def error_response_def)
    qed
  qed
  from closed silent reply show ?thesis by blast
qed


lemmas handler_defs =
  handle_client_connection_def try_block_def except_block_def dispatch_request_def
  recipe_request_def conn_recv_def conn_sendall_def conn_close_def accepted_def
  json_dumps_def error_response_def invalid_request_def no_ingredients_def py_get_def
  EmailAutomation_init_def

lemmas service_defs =
  get_recipe_ingredients_def get_recipe_ingredients_try_def getitem_str_def getitem_0_def
  py_iter_def truthy_def str_join_def recipe_subject_def recipe_body_def format_value_def
  send_email_def send_email_try_def fetch_recent_emails_def fetch_recent_emails_try_def
  search_ids_def bytes_split_def is_space_def slice_from_def email_summary_def
  get_email_body_def payload_text_def msg_getitem_def lower_char_def bind_r_def then_r_def
  recipe_url_def recipe_params_def

lemmas example_defs =
  demo_world_def recipe_world_def untyped_world_def ping_world_def silent_world_def
  no_recipe_world_def api_down_world_def bad_login_world_def one_mail_world_def
  garbage_world_def ok_smtp_def ok_imap_def demo_loads_def recipe_req_def untyped_req_def
  pasta_data_def msg_plain_def msg_html_only_def msg_two_plain_def demo_account_def

text \<open>
  The claim as first stated fails for a peer that sends nothing: the connection is closed
  with no payload, and the process has not crashed.
\<close>

theorem silent_peer_gets_no_reply:
  "conn_recv silent_world 1024 = Inr [] \<and>
   handle_client_connection silent_world =
     \<lparr>final_conn = \<lparr>delivered = [], sendall_calls = 0, closed = True\<rparr>,
      mail_calls = [], escaped = None\<rparr>"
  by (simp add: handler_defs example_defs)

theorem connection_always_closed_one_reply_witness:
  "conn_recv garbage_world 1024 \<noteq> Inr [] \<and>
   conn_sendall_result garbage_world 0 = None \<and>
   closed (final_conn (handle_client_connection garbage_world)) \<and>
   delivered (final_conn (handle_client_connection garbage_world)) =
     [PDict [(''success'', PBool False),
             (''message'', PStr ''Expecting value: line 1 column 1 (char 0)'')]] \<and>
   escaped (handle_client_connection garbage_world) = None"
proof -
  have r: "conn_recv garbage_world 1024 \<noteq> Inr []"
    by (simp add: handler_defs example_defs)
  have s: "conn_sendall_result garbage_world 0 = None"
    by (simp add: example_defs)
  have d: "delivered (final_conn (handle_client_connection garbage_world)) =
     [PDict [(''success'', PBool False),
             (''message'', PStr ''Expecting value: line 1 column 1 (char 0)'')]]"
    by (simp add: handler_defs example_defs)
  from connection_always_closed_one_reply [of garbage_world] r s d
  show ?thesis by simp
qed

text \<open>
  Claim C1, as amended. For a decoded JSON object whose \<open>type\<close> field is present and is
  neither \<open>"recipe"\<close> nor \<open>"fetch_emails"\<close>, the response is exactly
  \<open>{"success": false, "message": "Invalid request type"}\<close>, and \<open>send_email\<close> is not
  called. A request with no \<open>type\<close> field is handled as a \<open>recipe\<close> request (the default
  of line 153).
\<close>

theorem unknown_type_invalid_request:
  assumes "conn_recv w 1024 = Inr data" and "data \<noteq> []"
    and "json_loads w data = Inr (PDict kvs)"
  shows "(map_of kvs ''type'' = Some t \<and> t \<noteq> PStr ''recipe'' \<and> t \<noteq> PStr ''fetch_emails'' \<longrightarrow>
            dispatch_request w (PDict kvs) =
              ([], Inr (PDict [(''success'', PBool False),
                               (''message'', PStr ''Invalid request type'')])) \<and>
            mail_calls (handle_client_connection w) = [] \<and>
            (conn_sendall_result w 0 = None \<longrightarrow>
               delivered (final_conn (handle_client_connection w)) =
                 [PDict [(''success'', PBool False),
                         (''message'', PStr ''Invalid request type'')]])) \<and>
         (map_of kvs ''type'' = None \<longrightarrow>
            dispatch_request w (PDict kvs) =
              recipe_request w
                (EmailAutomation_init (getenv w ''EMAIL_ADDRESS'') (getenv w ''EMAIL_PASSWORD'')
                   ''imap.gmail.com'' ''smtp.gmail.com'')
                (PDict kvs))"
proof -
  have inv: "dispatch_request w (PDict kvs) =
              ([], Inr (PDict [(''success'', PBool False),
                               (''message'', PStr ''Invalid request type'')]))"
    if "map_of kvs ''type'' = Some t" and "t \<noteq> PStr ''recipe''" and "t \<noteq> PStr ''fetch_emails''"
    using that by (simp add: dispatch_request_def py_get_def invalid_request_def)
  have calls: "mail_calls (handle_client_connection w) = []"
    if "map_of kvs ''type'' = Some t" and "t \<noteq> PStr ''recipe''" and "t \<noteq> PStr ''fetch_emails''"
    using handle_mail_calls [OF assms inv [OF that]] .
  have reply: "delivered (final_conn (handle_client_connection w)) =
                 [PDict [(''success'', PBool False),
                         (''message'', PStr ''Invalid request type'')]]"
    if "map_of kvs ''type'' = Some t" and "t \<noteq> PStr ''recipe''" and "t \<noteq> PStr ''fetch_emails''"
      and "conn_sendall_result w 0 = None"
    using handle_reply [OF assms inv [OF that(1,2,3)] _ that(4)] by simp
  have dflt: "dispatch_request w (PDict kvs) =
              recipe_request w
                (EmailAutomation_init (getenv w ''EMAIL_ADDRESS'') (getenv w ''EMAIL_PASSWORD'')
                   ''imap.gmail.com'' ''smtp.gmail.com'')
                (PDict kvs)"
    if "map_of kvs ''type'' = None"
    using that by (simp add: dispatch_request_def py_get_def)
  from inv calls reply dflt show ?thesis by blast
qed

theorem unknown_type_invalid_request_witness:
  \<open>conn_recv ping_world 1024 = Inr ''{"type":"ping"}'' \<and>
   json_loads ping_world ''{"type":"ping"}'' = Inr (PDict [(''type'', PStr ''ping'')]) \<and>
   map_of [(''type'', PStr ''ping'')] ''type'' = Some (PStr ''ping'') \<and>
   conn_sendall_result ping_world 0 = None \<and>
   delivered (final_conn (handle_client_connection ping_world)) =
     [PDict [(''success'', PBool False), (''message'', PStr ''Invalid request type'')]] \<and>
   mail_calls (handle_client_connection ping_world) = []\<close>
proof -
  have r: \<open>conn_recv ping_world 1024 = Inr ''{"type":"ping"}''\<close>
    by (simp add: conn_recv_def example_defs)
  have n: \<open>''{"type":"ping"}'' \<noteq> []\<close>
    by simp
  have j: \<open>json_loads ping_world ''{"type":"ping"}'' = Inr (PDict [(''type'', PStr ''ping'')])\<close>
    by (simp add: example_defs)
  have s: "conn_sendall_result ping_world 0 = None"
    by (simp add: example_defs)
  from unknown_type_invalid_request [OF r n j, of "PStr ''ping''"] r j s
  show ?thesis by simp
qed

text \<open>
  The claim as first stated fails for a request without a \<open>type\<close> field: it is served as
  a recipe request, an email is sent, and the response is not the invalid-type object.
\<close>

theorem missing_type_is_recipe_request:
  \<open>conn_recv untyped_world 1024 = Inr ''{"food_type":"pasta","recipient_email":"a@b.com"}'' \<and>
   json_loads untyped_world ''{"food_type":"pasta","recipient_email":"a@b.com"}'' =
     Inr (PDict untyped_req) \<and>
   map_of untyped_req ''type'' = None \<and>
   handle_client_connection untyped_world =
     \<lparr>final_conn =
        \<lparr>delivered = [PDict [(''success'', PBool True),
                             (''message'', PStr ''Email sent successfully''),
                             (''ingredients'', PList [PStr ''200g pasta'', PStr ''1 onion''])]],
         sendall_calls = 1, closed = True\<rparr>,
      mail_calls = [(PStr ''a@b.com'', ''Ingredients for pasta Recipe'',
        ''Here are the ingredients for your pasta recipe:'' @ [CHR 0x0A, CHR 0x0A] @
        ''200g pasta'' @ [CHR 0x0A] @ ''1 onion'')],
      escaped = None\<rparr> \<and>
   delivered (final_conn (handle_client_connection untyped_world)) \<noteq>
     [PDict [(''success'', PBool False), (''message'', PStr ''Invalid request type'')]]\<close>
  by (simp add: handler_defs service_defs example_defs)

lemma join_from_strs: "join_from i (map PStr L) = Inr L"
  by (induction L arbitrary: i) simp_all

lemma send_email_success:
  "fst (send_email w self recipient subject body) \<Longrightarrow>
   send_email w self recipient subject body = (True, ''Email sent successfully'')"
  by (auto simp add: send_email_def send_email_try_def then_r_def bind_r_def
      split: option.splits sum.splits)

text \<open>
  Claim C2. For a \<open>recipe\<close> request for which the lookup returns a non-empty list \<open>L\<close> of
  ingredient strings and \<open>send_email\<close> reports success, the client receives
  \<open>{"success": true, "message": "Email sent successfully", "ingredients": L}\<close> with \<open>L\<close>
  exactly as the lookup returned it, and the one email sent carries, after its opening
  line, the ingredients of \<open>L\<close> joined by newlines in order.
\<close>

theorem recipe_success_response:
  assumes "conn_recv w 1024 = Inr data" and "data \<noteq> []"
    and "json_loads w data = Inr (PDict kvs)"
    and "py_get (PDict kvs) ''type'' (PStr ''recipe'') = Inr (PStr ''recipe'')"
    and "py_get (PDict kvs) ''food_type'' PNone = Inr food_type"
    and "py_get (PDict kvs) ''recipient_email'' PNone = Inr recipient_email"
    and "get_recipe_ingredients w food_type (getenv w ''SPOONACULAR_API_KEY'') = map PStr L"
    and "L \<noteq> []"
    and "subject = ''Ingredients for '' @ format_value w food_type @ '' Recipe''"
    and "body = ''Here are the ingredients for your '' @ format_value w food_type @
                '' recipe:'' @ [CHR 0x0A, CHR 0x0A] @ intercalate [CHR 0x0A] L"
    and "fst (send_email w
           (EmailAutomation_init (getenv w ''EMAIL_ADDRESS'') (getenv w ''EMAIL_PASSWORD'')
              ''imap.gmail.com'' ''smtp.gmail.com'')
           recipient_email subject body)"
    and "conn_sendall_result w 0 = None"
  shows "delivered (final_conn (handle_client_connection w)) =
           [PDict [(''success'', PBool True), (''message'', PStr ''Email sent successfully''),
                   (''ingredients'', PList (map PStr L))]] \<and>
         mail_calls (handle_client_connection w) = [(recipient_email, subject, body)]"
proof -
  let ?ea = "EmailAutomation_init (getenv w ''EMAIL_ADDRESS'') (getenv w ''EMAIL_PASSWORD'')
              ''imap.gmail.com'' ''smtp.gmail.com''"
  have sent: "send_email w ?ea recipient_email subject body = (True, ''Email sent successfully'')"
    using assms(11) by (rule send_email_success)
  have nonempty: "map PStr L \<noteq> []"
    using assms(8) by simp
  have joined: "str_join [CHR 0x0A] (map PStr L) = Inr (intercalate [CHR 0x0A] L)"
    by (simp add: str_join_def join_from_strs bind_r_def)
  have rr: "recipe_request w ?ea (PDict kvs) =
      ([(recipient_email, subject, body)],
       Inr (PDict [(''success'', PBool True), (''message'', PStr ''Email sent successfully''),
                   (''ingredients'', PList (map PStr L))]))"
    unfolding recipe_request_def
    using assms(5,6,7,9,10) nonempty joined sent
    by (simp add: Let_def recipe_subject_def recipe_body_def)
  have d: "dispatch_request w (PDict kvs) =
      ([(recipient_email, subject, body)],
       Inr (PDict [(''success'', PBool True), (''message'', PStr ''Email sent successfully''),
                   (''ingredients'', PList (map PStr L))]))"
    unfolding dispatch_request_def using assms(4) rr by (simp add: Let_def)
  have ser: "json_serializable (PDict [(''success'', PBool True),
      (''message'', PStr ''Email sent successfully''), (''ingredients'', PList (map PStr L))])"
    by (simp add: list_all_iff)
  from handle_reply [OF assms(1,2,3) d ser assms(12)] show ?thesis by simp
qed

text \<open>
  Claim C5. For a \<open>recipe\<close> request for which the lookup returns the empty list, the
  response is exactly
  \<open>{"success": false, "message": "No ingredients found", "ingredients": []}\<close>
  and \<open>send_email\<close> is never called.
\<close>

theorem no_ingredients_response:
  assumes "conn_recv w 1024 = Inr data" and "data \<noteq> []"
    and "json_loads w data = Inr (PDict kvs)"
    and "py_get (PDict kvs) ''type'' (PStr ''recipe'') = Inr (PStr ''recipe'')"
    and "py_get (PDict kvs) ''food_type'' PNone = Inr food_type"
    and "get_recipe_ingredients w food_type (getenv w ''SPOONACULAR_API_KEY'') = []"
  shows "dispatch_request w (PDict kvs) =
           ([], Inr (PDict [(''success'', PBool False), (''message'', PStr ''No ingredients found''),
                            (''ingredients'', PList [])])) \<and>
         mail_calls (handle_client_connection w) = [] \<and>
         (conn_sendall_result w 0 = None \<longrightarrow>
            delivered (final_conn (handle_client_connection w)) =
              [PDict [(''success'', PBool False), (''message'', PStr ''No ingredients found''),
                      (''ingredients'', PList [])]])"
proof -
  have d: "dispatch_request w (PDict kvs) =
           ([], Inr (PDict [(''success'', PBool False), (''message'', PStr ''No ingredients found''),
                            (''ingredients'', PList [])]))"
    using assms(4,5,6)
    by (auto simp add: dispatch_request_def recipe_request_def no_ingredients_def py_get_def
        Let_def split: option.splits)
  have calls: "mail_calls (handle_client_connection w) = []"
    using handle_mail_calls [OF assms(1,2,3) d] .
  have reply: "delivered (final_conn (handle_client_connection w)) =
              [PDict [(''success'', PBool False), (''message'', PStr ''No ingredients found''),
                      (''ingredients'', PList [])]]"
    if "conn_sendall_result w 0 = None"
    using handle_reply [OF assms(1,2,3) d _ that] by simp
  from d calls reply show ?thesis by blast
qed

subsection \<open>The fetch_emails branch\<close>

text \<open>
  Every summary carries the message id as \<open>bytes\<close> (line 84), which \<open>json.dumps\<close> rejects:
  a non-empty result of \<open>fetch_recent_emails\<close> cannot be sent, and the catch-all answers
  with the text of the \<open>TypeError\<close>.
\<close>

lemma email_summary_unserializable:
  "email_summary w email_id = Inr summary \<Longrightarrow> \<not> json_serializable summary"
  by (auto simp add: email_summary_def bind_r_def Let_def split: sum.splits)

lemma fetch_loop_unserializable:
  "fetch_loop w ids emails = Inr out \<Longrightarrow>
   list_all (\<lambda>v. \<not> json_serializable v) emails \<Longrightarrow>
   list_all (\<lambda>v. \<not> json_serializable v) out"
proof (induction ids arbitrary: emails)
  case Nil
  then show ?case by simp
next
  case (Cons i ids)
  then show ?case
    by (auto split: sum.splits dest: email_summary_unserializable)
qed

lemma fetch_recent_emails_unserializable:
  "list_all (\<lambda>v. \<not> json_serializable v) (fetch_recent_emails w self search_criteria limit)"
proof (cases "fetch_recent_emails_try w self search_criteria limit")
  case (Inl e)
  then show ?thesis by (simp add: fetch_recent_emails_def)
next
  case (Inr emails)
  then obtain ids where "fetch_loop w ids [] = Inr emails"
    by (auto simp add: fetch_recent_emails_try_def then_r_def bind_r_def
        split: option.splits sum.splits)
  from fetch_loop_unserializable [OF this] Inr show ?thesis
    by (simp add: fetch_recent_emails_def)
qed

lemma fetch_emails_reply:
  assumes "conn_recv w 1024 = Inr data" and "data \<noteq> []"
    and "json_loads w data = Inr (PDict kvs)"
    and "map_of kvs ''type'' = Some (PStr ''fetch_emails'')"
    and "conn_sendall_result w 0 = None"
    and "emails = fetch_recent_emails w
           (EmailAutomation_init (getenv w ''EMAIL_ADDRESS'') (getenv w ''EMAIL_PASSWORD'')
              ''imap.gmail.com'' ''smtp.gmail.com'') ''UNSEEN'' 5"
  shows "delivered (final_conn (handle_client_connection w)) =
           (if emails = [] then [PDict [(''success'', PBool True), (''emails'', PList [])]]
            else [PDict [(''success'', PBool False),
                    (''message'', PStr ''Object of type bytes is not JSON serializable'')]])"
proof -
  have d: "dispatch_request w (PDict kvs) =
      ([], Inr (PDict [(''success'', PBool True), (''emails'', PList emails)]))"
    using assms(4,6) by (simp add: dispatch_request_def py_get_def Let_def)
  have u: "list_all (\<lambda>v. \<not> json_serializable v) emails"
    unfolding assms(6) by (rule fetch_recent_emails_unserializable)
  show ?thesis
  proof (cases "emails = []")
    case True
    with handle_reply [OF assms(1,2,3) d _ assms(5)] show ?thesis by simp
  next
    case False
    then obtain x xs where "emails = x # xs" by (cases emails) auto
    with u have "\<not> json_serializable (PDict [(''success'', PBool True), (''emails'', PList emails)])"
      by simp
    from handle_unserializable [OF assms(1,2,3) d this assms(5)] False show ?thesis
      by (simp add: error_response_def)
  qed
qed


theorem recipe_success_response_witness:
  \<open>conn_recv recipe_world 1024 =
     Inr ''{"type":"recipe","food_type":"pasta","recipient_email":"a@b.com"}'' \<and>
   json_loads recipe_world ''{"type":"recipe","food_type":"pasta","recipient_email":"a@b.com"}'' =
     Inr (PDict recipe_req) \<and>
   get_recipe_ingredients recipe_world (PStr ''pasta'') (getenv recipe_world ''SPOONACULAR_API_KEY'') =
     [PStr ''200g pasta'', PStr ''1 onion''] \<and>
   delivered (final_conn (handle_client_connection recipe_world)) =
     [PDict [(''success'', PBool True), (''message'', PStr ''Email sent successfully''),
             (''ingredients'', PList [PStr ''200g pasta'', PStr ''1 onion''])]] \<and>
   mail_calls (handle_client_connection recipe_world) =
     [(PStr ''a@b.com'', ''Ingredients for pasta Recipe'',
       ''Here are the ingredients for your pasta recipe:'' @ [CHR 0x0A, CHR 0x0A] @
       ''200g pasta'' @ [CHR 0x0A] @ ''1 onion'')]\<close>
proof -
  have r: \<open>conn_recv recipe_world 1024 =
     Inr ''{"type":"recipe","food_type":"pasta","recipient_email":"a@b.com"}''\<close>
    by (simp add: conn_recv_def example_defs)
  have n: \<open>''{"type":"recipe","food_type":"pasta","recipient_email":"a@b.com"}'' \<noteq> []\<close>
    by simp
  have j: \<open>json_loads recipe_world
      ''{"type":"recipe","food_type":"pasta","recipient_email":"a@b.com"}'' = Inr (PDict recipe_req)\<close>
    by (simp add: example_defs)
  have t: "py_get (PDict recipe_req) ''type'' (PStr ''recipe'') = Inr (PStr ''recipe'')"
    by (simp add: py_get_def recipe_req_def)
  have f: "py_get (PDict recipe_req) ''food_type'' PNone = Inr (PStr ''pasta'')"
    by (simp add: py_get_def recipe_req_def)
  have c: "py_get (PDict recipe_req) ''recipient_email'' PNone = Inr (PStr ''a@b.com'')"
    by (simp add: py_get_def recipe_req_def)
  have g: "get_recipe_ingredients recipe_world (PStr ''pasta'')
      (getenv recipe_world ''SPOONACULAR_API_KEY'') = map PStr [''200g pasta'', ''1 onion'']"
    by (simp add: service_defs example_defs)
  have l: "[''200g pasta'', ''1 onion''] \<noteq> ([] :: string list)"
    by simp
  have e: "fst (send_email recipe_world
           (EmailAutomation_init (getenv recipe_world ''EMAIL_ADDRESS'')
              (getenv recipe_world ''EMAIL_PASSWORD'') ''imap.gmail.com'' ''smtp.gmail.com'')
           (PStr ''a@b.com'')
           (''Ingredients for '' @ format_value recipe_world (PStr ''pasta'') @ '' Recipe'')
           (''Here are the ingredients for your '' @ format_value recipe_world (PStr ''pasta'') @
                '' recipe:'' @ [CHR 0x0A, CHR 0x0A] @
                intercalate [CHR 0x0A] [''200g pasta'', ''1 onion'']))"
    by (simp add: service_defs example_defs EmailAutomation_init_def)
  have s: "conn_sendall_result recipe_world 0 = None"
    by (simp add: example_defs)
  from recipe_success_response [OF r n j t f c g l refl refl e s] r j g
  show ?thesis by (simp add: format_value_def)
qed

theorem no_ingredients_response_witness:
  \<open>conn_recv no_recipe_world 1024 =
     Inr ''{"type":"recipe","food_type":"pasta","recipient_email":"a@b.com"}'' \<and>
   json_loads no_recipe_world ''{"type":"recipe","food_type":"pasta","recipient_email":"a@b.com"}'' =
     Inr (PDict recipe_req) \<and>
   get_recipe_ingredients no_recipe_world (PStr ''pasta'')
     (getenv no_recipe_world ''SPOONACULAR_API_KEY'') = [] \<and>
   conn_sendall_result no_recipe_world 0 = None \<and>
   delivered (final_conn (handle_client_connection no_recipe_world)) =
     [PDict [(''success'', PBool False), (''message'', PStr ''No ingredients found''),
             (''ingredients'', PList [])]] \<and>
   mail_calls (handle_client_connection no_recipe_world) = []\<close>
proof -
  have r: \<open>conn_recv no_recipe_world 1024 =
     Inr ''{"type":"recipe","food_type":"pasta","recipient_email":"a@b.com"}''\<close>
    by (simp add: conn_recv_def example_defs)
  have n: \<open>''{"type":"recipe","food_type":"pasta","recipient_email":"a@b.com"}'' \<noteq> []\<close>
    by simp
  have j: \<open>json_loads no_recipe_world
      ''{"type":"recipe","food_type":"pasta","recipient_email":"a@b.com"}'' = Inr (PDict recipe_req)\<close>
    by (simp add: example_defs)
  have t: "py_get (PDict recipe_req) ''type'' (PStr ''recipe'') = Inr (PStr ''recipe'')"
    by (simp add: py_get_def recipe_req_def)
  have f: "py_get (PDict recipe_req) ''food_type'' PNone = Inr (PStr ''pasta'')"
    by (simp add: py_get_def recipe_req_def)
  have g: "get_recipe_ingredients no_recipe_world (PStr ''pasta'')
      (getenv no_recipe_world ''SPOONACULAR_API_KEY'') = []"
    by (simp add: service_defs example_defs)
  have s: "conn_sendall_result no_recipe_world 0 = None"
    by (simp add: example_defs)
  from no_ingredients_response [OF r n j t f g] r j g s
  show ?thesis by simp
qed

text \<open>
  Claim C3 at a failing input: a \<open>fetch_emails\<close> request while the inbox holds one unread
  message. The fetch succeeds and returns one summary, and the client receives
  \<open>{"success": false, "message": "Object of type bytes is not JSON serializable"}\<close>
  instead of \<open>success = true\<close> with one email.
\<close>

theorem fetch_emails_one_unread_fails:
  \<open>conn_recv one_mail_world 1024 = Inr ''{"type":"fetch_emails"}'' \<and>
   json_loads one_mail_world ''{"type":"fetch_emails"}'' =
     Inr (PDict [(''type'', PStr ''fetch_emails'')]) \<and>
   fetch_recent_emails one_mail_world demo_account ''UNSEEN'' 5 =
     [PDict [(''id'', PBytes ''1''), (''subject'', PStr ''Hi''),
             (''sender'', PStr ''bob@example.org''), (''body'', PStr ''hello'')]] \<and>
   handle_client_connection one_mail_world =
     \<lparr>final_conn =
        \<lparr>delivered = [PDict [(''success'', PBool False),
           (''message'', PStr ''Object of type bytes is not JSON serializable'')]],
         sendall_calls = 1, closed = True\<rparr>,
      mail_calls = [], escaped = None\<rparr>\<close>
  by (simp add: handler_defs service_defs example_defs)

end
